theory Spec2Isabelle
  imports Main
begin

section \<open>Python values, exceptions and the file system\<close>

text \<open>
  The values \<^verbatim>\<open>json.load\<close> returns: \<^verbatim>\<open>None\<close>, booleans, integers, strings, lists
  and dictionaries with string keys (in insertion order). The module never inspects a
  number, so only integers are kept. Python's \<^verbatim>\<open>None\<close> is \<open>PNone\<close>.
\<close>

datatype pyval =
    PNone
  | PBool bool
  | PInt int
  | PStr string
  | PList "pyval list"
  | PDict "(string \<times> pyval) list"

text \<open>
  The exceptions that reach a caller of \<^verbatim>\<open>comptox_ai/graph/graph.py\<close>, and the three
  error names of the specification's taxonomy that the claims mention. No code of the
  module raises one of the latter three.
\<close>

datatype py_error =
    TypeError
  | AttributeError
  | KeyError
  | ValueError
  | NotImplementedError
  | OSError
  | FileNotFoundError
  | NotADirectoryError
  | IsADirectoryError
  | PermissionError
  | JSONDecodeError
  | UnicodeDecodeError
  | NetworkXError
  | MalformedSourceError
  | DuplicateIdentifierError
  | IncompatibleFeatureLayoutError

type_synonym path = string

text \<open>
  The libraries \<^verbatim>\<open>json\<close> and \<^verbatim>\<open>numpy\<close> are not part of the repository. A regular file is
  therefore given by what each of the three readers the module applies to a file makes of
  its bytes: \<^verbatim>\<open>json.load(open(f, 'r'))\<close>, \<^verbatim>\<open>np.load(f)\<close> and iterating over the lines of
  \<^verbatim>\<open>open(f, 'r')\<close>. \<open>Inl e\<close> is the exception the reader raises on this file.
\<close>

record 'a file_content =
  json_doc :: "py_error + pyval"
  npy_array :: "py_error + 'a"
  text_lines :: "py_error + string list"

text \<open>
  The file system, as the call sees it: what opening a path finds. \<open>Absent e\<close>: nothing
  exists under the path and \<^verbatim>\<open>open\<close> raises \<open>e\<close>, which is \<^verbatim>\<open>FileNotFoundError\<close> in
  the ordinary case, \<^verbatim>\<open>NotADirectoryError\<close> when a parent of the path is a regular file,
  \<^verbatim>\<open>OSError\<close> (errno 36) when a name of the path is too long, \<^verbatim>\<open>ValueError\<close> when
  the path has an embedded NUL. A directory and an entry that may not be read raise
  \<^verbatim>\<open>IsADirectoryError\<close> and \<^verbatim>\<open>PermissionError\<close>.
\<close>

datatype 'a fs_node = Absent py_error | Directory | NoAccess | File "'a file_content"

type_synonym 'a filesystem = "path \<Rightarrow> 'a fs_node"

text \<open>
  A step of the call: the value it returns or the exception it raises, and the paths it
  has tried to open, in order.
\<close>

type_synonym 'x io = "(py_error + 'x) \<times> path list"

definition returns :: "'x \<Rightarrow> 'x io" where
  "returns x = (Inr x, [])"

definition raises :: "py_error \<Rightarrow> 'x io" where
  "raises e = (Inl e, [])"

text \<open>A library function that opens no file: it returns or raises.\<close>

definition of_result :: "py_error + 'x \<Rightarrow> 'x io" where
  "of_result r = (r, [])"

text \<open>
  Sequencing of two steps, the second of which runs only when the first returns; the
  paths opened by the second follow those of the first.
\<close>

definition and_then :: "'x io \<Rightarrow> ('x \<Rightarrow> 'y io) \<Rightarrow> 'y io" where
  "and_then m k =
     (case m of
        (Inl e, opened) \<Rightarrow> (Inl e, opened)
      | (Inr x, opened) \<Rightarrow> (case k x of (r, opened') \<Rightarrow> (r, opened @ opened')))"

text \<open>
  \<^verbatim>\<open>open(path, 'r')\<close>, and the \<^verbatim>\<open>open(path, 'rb')\<close> inside \<^verbatim>\<open>np.load\<close>: the path is
  tried, whatever the outcome.
\<close>

definition open_file :: "'a filesystem \<Rightarrow> path \<Rightarrow> 'a file_content io" where
  "open_file fs p =
     ((case fs p of
         Absent e \<Rightarrow> Inl e
       | Directory \<Rightarrow> Inl IsADirectoryError
       | NoAccess \<Rightarrow> Inl PermissionError
       | File f \<Rightarrow> Inr f),
      [p])"

definition json_load :: "'a filesystem \<Rightarrow> path \<Rightarrow> pyval io" where
  "json_load fs p = and_then (open_file fs p) (\<lambda>f. of_result (json_doc f))"

definition np_load :: "'a filesystem \<Rightarrow> path \<Rightarrow> 'a io" where
  "np_load fs p = and_then (open_file fs p) (\<lambda>f. of_result (npy_array f))"

text \<open>
  \<^verbatim>\<open>walks = []; with open(walks_file, 'r') as fp: for l in fp: walks.append(l)\<close>:
  the loop appends every line, in order, to the accumulator.
\<close>

fun append_lines :: "string list \<Rightarrow> string list \<Rightarrow> string list" where
  "append_lines walks [] = walks"
| "append_lines walks (l # ls) = append_lines (walks @ [l]) ls"

definition read_walks :: "'a filesystem \<Rightarrow> path \<Rightarrow> string list io" where
  "read_walks fs p =
     and_then (open_file fs p) (\<lambda>f.
       and_then (of_result (text_lines f)) (\<lambda>ls. returns (append_lines [] ls)))"

text \<open>
  \<^verbatim>\<open>try: x = body  except FileNotFoundError: x = None\<close>. Every other exception of the
  body propagates.
\<close>

definition except_FileNotFoundError :: "'x io \<Rightarrow> 'x \<Rightarrow> 'x io" where
  "except_FileNotFoundError body dflt =
     (case body of
        (Inl e, opened) \<Rightarrow> (if e = FileNotFoundError then Inr dflt else Inl e, opened)
      | (Inr x, opened) \<Rightarrow> (Inr x, opened))"

text \<open>
  \<^verbatim>\<open>os.path.join(a, b)\<close> of \<^verbatim>\<open>posixpath\<close> on two strings: an absolute \<open>b\<close> replaces
  \<open>a\<close>; otherwise the two are concatenated, with a separator unless \<open>a\<close> is empty or
  ends with one.
\<close>

definition os_path_join :: "path \<Rightarrow> path \<Rightarrow> path" where
  "os_path_join a b =
     (if b \<noteq> [] \<and> hd b = CHR ''/'' then b
      else if a = [] \<or> last a = CHR ''/'' then a @ b
      else a @ ''/'' @ b)"

section \<open>The backing data and the Graph class\<close>

datatype data_class = Neo4j | NetworkX | GraphSAGE | OtherData

text \<open>
  An instance of \<^verbatim>\<open>GraphDataMixin\<close>: its class and the seven parameters that the
  docstring of \<^verbatim>\<open>Graph\<close> lists for a graph data structure (the graph itself, \<^verbatim>\<open>node_map\<close>,
  \<^verbatim>\<open>edge_map\<close>, \<^verbatim>\<open>node_classes\<close>, \<^verbatim>\<open>edge_classes\<close>, \<^verbatim>\<open>node_features\<close>,
  \<^verbatim>\<open>edge_features\<close>, each \<^verbatim>\<open>None\<close> by default).
\<close>

record ('g, 'a) graph_data =
  data_class :: data_class
  graph :: 'g
  node_map :: pyval
  edge_map :: pyval
  node_classes :: pyval
  edge_classes :: pyval
  node_features :: "'a option"
  edge_features :: "'a option"

text \<open>
  Modelled from the spec: the class \<^verbatim>\<open>GraphSAGE\<close> of \<^verbatim>\<open>comptox_ai/graph/io.py\<close> is not
  among the sources. Its constructor, called as
  \<^verbatim>\<open>GraphSAGE(graph=G, node_map=id_map, node_classes=class_map, node_features=feats_map)\<close>,
  is taken to build the canonical model from the artifacts it is given: it stores each
  keyword argument and leaves the others at their default \<^verbatim>\<open>None\<close>.
\<close>

definition GraphSAGE_init ::
  "'g \<Rightarrow> pyval \<Rightarrow> pyval \<Rightarrow> 'a option \<Rightarrow> ('g, 'a) graph_data" where
  "GraphSAGE_init G nmap ncls nfeat =
     \<lparr> data_class = GraphSAGE, graph = G, node_map = nmap, edge_map = PNone,
       node_classes = ncls, edge_classes = PNone,
       node_features = nfeat, edge_features = None \<rparr>"

text \<open>
  A \<^verbatim>\<open>Graph\<close> object: \<^verbatim>\<open>self._data\<close> and \<^verbatim>\<open>self.format\<close>. The attribute \<^verbatim>\<open>format\<close> is
  \<open>None\<close> while it has not been assigned.
\<close>

record ('g, 'a) Graph =
  data :: "('g, 'a) graph_data"
  format :: "string option"

text \<open>\<^verbatim>\<open>Graph.__init__\<close>: the \<^verbatim>\<open>isinstance\<close> chain sets the format tag.\<close>

definition Graph_init :: "('g, 'a) graph_data \<Rightarrow> ('g, 'a) Graph" where
  "Graph_init d =
     \<lparr> data = d,
       format =
         (if data_class d = Neo4j then Some ''neo4j''
          else if data_class d = NetworkX then Some ''networkx''
          else if data_class d = GraphSAGE then Some ''graphsage''
          else None) \<rparr>"

section \<open>Graph.from\_graphsage\<close>

text \<open>The five file names of lines 196 to 200.\<close>

definition nx_json_file :: "path \<Rightarrow> string \<Rightarrow> path" where
  "nx_json_file directory prefix = os_path_join directory (prefix @ ''-G.json'')"

definition id_map_file :: "path \<Rightarrow> string \<Rightarrow> path" where
  "id_map_file directory prefix = os_path_join directory (prefix @ ''-id_map.json'')"

definition class_map_file :: "path \<Rightarrow> string \<Rightarrow> path" where
  "class_map_file directory prefix = os_path_join directory (prefix @ ''-class_map.json'')"

definition feats_map_file :: "path \<Rightarrow> string \<Rightarrow> path" where
  "feats_map_file directory prefix = os_path_join directory (prefix @ ''-feats.npy'')"

definition walks_file :: "path \<Rightarrow> string \<Rightarrow> path" where
  "walks_file directory prefix = os_path_join directory (prefix @ ''-walks.txt'')"

text \<open>
  The three optional loads, each inside its \<^verbatim>\<open>try\<close> block. The value is the one bound to
  the local variable \<^verbatim>\<open>class_map\<close>, \<^verbatim>\<open>feats_map\<close>, \<^verbatim>\<open>walks\<close>.
\<close>

definition load_class_map :: "'a filesystem \<Rightarrow> path \<Rightarrow> pyval io" where
  "load_class_map fs p = except_FileNotFoundError (json_load fs p) PNone"

definition load_feats_map :: "'a filesystem \<Rightarrow> path \<Rightarrow> 'a option io" where
  "load_feats_map fs p =
     except_FileNotFoundError (and_then (np_load fs p) (\<lambda>a. returns (Some a))) None"

definition load_walks :: "'a filesystem \<Rightarrow> path \<Rightarrow> string list option io" where
  "load_walks fs p =
     except_FileNotFoundError (and_then (read_walks fs p) (\<lambda>w. returns (Some w))) None"

text \<open>
  \<^verbatim>\<open>json_graph.node_link_graph(json.load(open(nx_json_file, 'r')))\<close>. The function
  \<^verbatim>\<open>node_link_graph\<close> belongs to networkx; it is a parameter of the model.
\<close>

definition load_graph ::
  "(pyval \<Rightarrow> py_error + 'g) \<Rightarrow> 'a filesystem \<Rightarrow> path \<Rightarrow> 'g io" where
  "load_graph node_link_graph fs p =
     and_then (json_load fs p) (\<lambda>doc. of_result (node_link_graph doc))"

text \<open>
  \<^verbatim>\<open>Graph.from_graphsage(prefix, directory=None)\<close>. The result is the returned object or
  the exception raised, together with the paths the call has tried to open, in order.
  With \<^verbatim>\<open>directory\<close> left at \<^verbatim>\<open>None\<close>, the first \<^verbatim>\<open>os.path.join\<close> raises
  \<^verbatim>\<open>TypeError\<close>. The local \<^verbatim>\<open>walks\<close> is bound and not used afterwards.
\<close>

definition from_graphsage ::
  "(pyval \<Rightarrow> py_error + 'g) \<Rightarrow> 'a filesystem \<Rightarrow> string \<Rightarrow> path option
     \<Rightarrow> ('g, 'a) Graph io" where
  "from_graphsage node_link_graph fs prefix directory =
     (case directory of
        None \<Rightarrow> raises TypeError
      | Some d \<Rightarrow>
         (let nx_json = nx_json_file d prefix;
              id_map_json = id_map_file d prefix;
              class_map_json = class_map_file d prefix;
              feats_npy = feats_map_file d prefix;
              walks_txt = walks_file d prefix
          in and_then (load_graph node_link_graph fs nx_json) (\<lambda>G.
             and_then (json_load fs id_map_json) (\<lambda>id_map.
             and_then (load_class_map fs class_map_json) (\<lambda>class_map.
             and_then (load_feats_map fs feats_npy) (\<lambda>feats_map.
             and_then (load_walks fs walks_txt) (\<lambda>walks.
               returns (Graph_init (GraphSAGE_init G id_map class_map feats_map)))))))))"

section \<open>The other members of Graph\<close>

text \<open>
  \<^verbatim>\<open>add_node\<close> and the property \<^verbatim>\<open>id_map\<close> are declared with \<^verbatim>\<open>@abstractmethod\<close> and
  the body \<^verbatim>\<open>pass\<close>. \<^verbatim>\<open>Graph\<close> derives from \<^verbatim>\<open>object\<close>, so the decorator does not
  prevent instantiation (\<^verbatim>\<open>from_graphsage\<close> returns \<^verbatim>\<open>cls(data=graph_data)\<close>), and on
  such an object each of them returns \<^verbatim>\<open>None\<close> and changes nothing. A method returns
  its value, or the exception, and the object after the call.
\<close>

definition add_node ::
  "('g, 'a) Graph \<Rightarrow> 'n \<Rightarrow> (py_error + pyval) \<times> ('g, 'a) Graph" where
  "add_node self nodes = (Inr PNone, self)"

definition id_map :: "('g, 'a) Graph \<Rightarrow> pyval" where
  "id_map self = PNone"

text \<open>
  The class methods \<^verbatim>\<open>from_neo4j(cls)\<close>, \<^verbatim>\<open>from_networkx(cls)\<close> and \<^verbatim>\<open>from_dgl(cls)\<close>
  declare no parameter besides \<^verbatim>\<open>cls\<close>. A call is given by its positional and its
  keyword arguments; with any argument at all Python raises \<^verbatim>\<open>TypeError\<close> when it
  binds the arguments, before the body runs.
\<close>

definition from_neo4j :: "'v list \<Rightarrow> (string \<times> 'v) list \<Rightarrow> py_error + ('g, 'a) Graph" where
  "from_neo4j args kwargs =
     (if args = [] \<and> kwargs = [] then Inl NotImplementedError else Inl TypeError)"

definition from_networkx :: "'v list \<Rightarrow> (string \<times> 'v) list \<Rightarrow> py_error + ('g, 'a) Graph" where
  "from_networkx args kwargs =
     (if args = [] \<and> kwargs = [] then Inl NotImplementedError else Inl TypeError)"

definition from_dgl :: "'v list \<Rightarrow> (string \<times> 'v) list \<Rightarrow> py_error + ('g, 'a) Graph" where
  "from_dgl args kwargs =
     (if args = [] \<and> kwargs = [] then Inl NotImplementedError else Inl TypeError)"

text \<open>
  Modelled from the spec: the attribute \<^verbatim>\<open>_is_heterogeneous\<close> of the backing data is set
  by the classes of \<^verbatim>\<open>comptox_ai/graph/io.py\<close>, which are not among the sources. The
  specification (4.1) makes it true iff the Heterogeneity Descriptor lists more than one
  node class or more than one edge class. The descriptor is read off \<^verbatim>\<open>node_classes\<close>
  and \<^verbatim>\<open>edge_classes\<close>, which the docstring of \<^verbatim>\<open>Graph\<close> gives as a list of class
  names, or \<^verbatim>\<open>None\<close> for a homogeneous graph.
\<close>

fun listed_classes :: "pyval \<Rightarrow> pyval list" where
  "listed_classes (PList cs) = cs"
| "listed_classes _ = []"

definition is_heterogeneous_attr :: "('g, 'a) graph_data \<Rightarrow> bool" where
  "is_heterogeneous_attr d =
     (1 < length (remdups (listed_classes (node_classes d))) \<or>
      1 < length (remdups (listed_classes (edge_classes d))))"

text \<open>The property \<^verbatim>\<open>Graph.is_heterogeneous\<close>: \<^verbatim>\<open>return self._data._is_heterogeneous\<close>.\<close>

definition is_heterogeneous :: "('g, 'a) Graph \<Rightarrow> bool" where
  "is_heterogeneous self = is_heterogeneous_attr (data self)"

text \<open>
  Modelled from the spec: \<^verbatim>\<open>Graph\<close> defines no method \<^verbatim>\<open>convert_inplace\<close>; only the
  module docstring calls it (\<^verbatim>\<open>G.convert_inplace(to='networkx')\<close>). By the specification
  (4.2, 4.3) it validates the Heterogeneity Descriptor against the capabilities of the
  target format, fails with \<^verbatim>\<open>IncompatibleFeatureLayoutError\<close> when the model is
  heterogeneous and the target supports a homogeneous feature layout only, and otherwise
  replaces the adapter and the format tag of the same object. Which formats are
  homogeneous-only, and how the backing data are re-expressed for the target, are
  parameters.
\<close>

definition convert_inplace ::
  "(string \<Rightarrow> bool) \<Rightarrow> (string \<Rightarrow> ('g, 'a) graph_data \<Rightarrow> ('g, 'a) graph_data) \<Rightarrow>
     ('g, 'a) Graph \<Rightarrow> string \<Rightarrow> (py_error + pyval) \<times> ('g, 'a) Graph" where
  "convert_inplace homogeneous_only adapter self to =
     (if is_heterogeneous self \<and> homogeneous_only to
      then (Inl IncompatibleFeatureLayoutError, self)
      else (Inr PNone, self\<lparr> data := adapter to (data self), format := Some to \<rparr>))"

section \<open>Properties used to state the claims\<close>

text \<open>
  An identity map in the sense of the specification: a dictionary whose keys are pairwise
  different, whose values are pairwise different, and whose values are exactly the
  integers of the dense range from 0 up to, and without, the number of entries.
\<close>

definition is_dense_bijection :: "pyval \<Rightarrow> bool" where
  "is_dense_bijection m =
     (case m of
        PDict kvs \<Rightarrow>
          distinct (map fst kvs) \<and> distinct (map snd kvs) \<and>
          set (map snd kvs) = set (map (\<lambda>i. PInt (int i)) [0..<length kvs])
      | _ \<Rightarrow> False)"


section \<open>Concrete inputs\<close>

text \<open>
  A stand-in for \<^verbatim>\<open>networkx.readwrite.json_graph.node_link_graph\<close>, used only to
  instantiate the parameter at concrete inputs: the graph is kept as the lists of its node
  and link records; a document without the key \<^verbatim>\<open>nodes\<close> or \<^verbatim>\<open>links\<close> is refused.
\<close>

type_synonym nx_graph = "pyval list \<times> pyval list"

definition example_node_link_graph :: "pyval \<Rightarrow> py_error + nx_graph" where
  "example_node_link_graph doc =
     (case doc of
        PDict kvs \<Rightarrow>
          (case (map_of kvs ''nodes'', map_of kvs ''links'') of
             (Some (PList ns), Some (PList ls)) \<Rightarrow> Inr (ns, ls)
           | _ \<Rightarrow> Inl KeyError)
      | _ \<Rightarrow> Inl AttributeError)"

text \<open>
  A file system given by the list of its entries, with the rules of a POSIX system for a
  path under which nothing exists: an embedded NUL, a name of more than 255 characters, a
  parent that is a regular file.
\<close>

fun path_components :: "path \<Rightarrow> string list" where
  "path_components [] = [[]]"
| "path_components (c # cs) =
     (if c = CHR ''/'' then [] # path_components cs
      else (case path_components cs of [] \<Rightarrow> [[c]] | x # xs \<Rightarrow> (c # x) # xs))"

definition parent_paths :: "path \<Rightarrow> path list" where
  "parent_paths p = map (\<lambda>i. take i p) (filter (\<lambda>i. p ! i = CHR ''/'') [1..<length p])"

definition is_regular_file :: "'a fs_node option \<Rightarrow> bool" where
  "is_regular_file n = (case n of Some (File f) \<Rightarrow> True | _ \<Rightarrow> False)"

definition posix_fs :: "(path \<times> 'a fs_node) list \<Rightarrow> 'a filesystem" where
  "posix_fs entries p =
     (if CHR 0x00 \<in> set p then Absent ValueError
      else if list_ex (\<lambda>c. 255 < length c) (path_components p) then Absent OSError
      else if list_ex (\<lambda>q. is_regular_file (map_of entries q)) (parent_paths p)
        then Absent NotADirectoryError
      else (case map_of entries p of None \<Rightarrow> Absent FileNotFoundError | Some n \<Rightarrow> n))"

text \<open>Files by kind: a JSON text, a plain text, a binary numpy array.\<close>

definition json_file :: "pyval \<Rightarrow> string list \<Rightarrow> 'a file_content" where
  "json_file doc ls = \<lparr> json_doc = Inr doc, npy_array = Inl ValueError, text_lines = Inr ls \<rparr>"

definition text_file :: "string list \<Rightarrow> 'a file_content" where
  "text_file ls = \<lparr> json_doc = Inl JSONDecodeError, npy_array = Inl ValueError, text_lines = Inr ls \<rparr>"

definition npy_file :: "'a \<Rightarrow> 'a file_content" where
  "npy_file a =
     \<lparr> json_doc = Inl UnicodeDecodeError, npy_array = Inr a, text_lines = Inl UnicodeDecodeError \<rparr>"

definition example_G_doc :: pyval where
  "example_G_doc =
     PDict [(''directed'', PBool False), (''multigraph'', PBool False), (''graph'', PDict []),
            (''nodes'', PList [PDict [(''id'', PStr ''a'')], PDict [(''id'', PStr ''b'')]]),
            (''links'', PList [PDict [(''source'', PStr ''a''), (''target'', PStr ''b'')]])]"

definition example_G_text :: "string list" where
  \<open>example_G_text =
     [''{"directed": false, "multigraph": false, "graph": {}, '' @
      ''"nodes": [{"id": "a"}, {"id": "b"}], "links": [{"source": "a", "target": "b"}]}'']\<close>

definition example_G :: nx_graph where
  "example_G =
     ([PDict [(''id'', PStr ''a'')], PDict [(''id'', PStr ''b'')]],
      [PDict [(''source'', PStr ''a''), (''target'', PStr ''b'')]])"

definition example_id_map :: pyval where
  "example_id_map = PDict [(''a'', PInt 0), (''b'', PInt 1)]"

definition example_id_map_text :: "string list" where
  \<open>example_id_map_text = [''{"a": 0, "b": 1}'']\<close>

definition colliding_id_map :: pyval where
  "colliding_id_map = PDict [(''a'', PInt 0), (''b'', PInt 0)]"

definition colliding_id_map_text :: "string list" where
  \<open>colliding_id_map_text = [''{"a": 0, "b": 0}'']\<close>

definition example_class_map :: pyval where
  "example_class_map =
     PDict [(''a'', PList [PInt 1, PInt 0]), (''b'', PList [PInt 0, PInt 1])]"

definition example_class_map_text :: "string list" where
  \<open>example_class_map_text = [''{"a": [1, 0], "b": [0, 1]}'']\<close>

definition example_feats :: "int list list" where
  "example_feats = [[1, 2, 3], [4, 5, 6]]"

text \<open>Two walk lines, not in ascending order of their first item.\<close>

definition example_walks :: "string list" where
  "example_walks = [''1 0'' @ [CHR 0x0A], ''0 1'' @ [CHR 0x0A]]"

definition fs_mandatory :: "int list list filesystem" where
  "fs_mandatory =
     posix_fs [(''d/p-G.json'', File (json_file example_G_doc example_G_text)),
             (''d/p-id_map.json'', File (json_file example_id_map example_id_map_text))]"

definition fs_walks :: "int list list filesystem" where
  "fs_walks =
     posix_fs [(''d/p-G.json'', File (json_file example_G_doc example_G_text)),
             (''d/p-id_map.json'', File (json_file example_id_map example_id_map_text)),
             (''d/p-walks.txt'', File (text_file example_walks))]"

definition fs_full :: "int list list filesystem" where
  "fs_full =
     posix_fs [(''d/p-G.json'', File (json_file example_G_doc example_G_text)),
             (''d/p-id_map.json'', File (json_file example_id_map example_id_map_text)),
             (''d/p-class_map.json'', File (json_file example_class_map example_class_map_text)),
             (''d/p-feats.npy'', File (npy_file example_feats)),
             (''d/p-walks.txt'', File (text_file example_walks))]"

definition fs_colliding :: "int list list filesystem" where
  "fs_colliding =
     posix_fs [(''d/p-G.json'', File (json_file example_G_doc example_G_text)),
             (''d/p-id_map.json'', File (json_file colliding_id_map colliding_id_map_text))]"

definition fs_G_only :: "int list list filesystem" where
  "fs_G_only = posix_fs [(''d/p-G.json'', File (json_file example_G_doc example_G_text))]"

definition fs_garbled_id_map :: "int list list filesystem" where
  "fs_garbled_id_map =
     posix_fs [(''d/p-G.json'', File (json_file example_G_doc example_G_text)),
             (''d/p-id_map.json'', File (text_file [''{'']))]"

definition fs_empty :: "int list list filesystem" where
  "fs_empty = posix_fs []"

text \<open>The class map is a directory.\<close>

definition fs_class_map_directory :: "int list list filesystem" where
  "fs_class_map_directory =
     posix_fs [(''d/p-G.json'', File (json_file example_G_doc example_G_text)),
               (''d/p-id_map.json'', File (json_file example_id_map example_id_map_text)),
               (''d/p-class_map.json'', Directory)]"

text \<open>The directory argument names a regular file.\<close>

definition fs_file_as_directory :: "int list list filesystem" where
  "fs_file_as_directory = posix_fs [(''d'', File (text_file []))]"

text \<open>
  A prefix of 241 characters: the names of the two mandatory files have 248 and 253
  characters and the files exist; the name of the class map would have 256.
\<close>

definition long_prefix :: string where
  "long_prefix = replicate 241 (CHR ''p'')"

definition long_prefix_entries :: "(path \<times> int list list fs_node) list" where
  "long_prefix_entries =
     [(''d/'' @ long_prefix @ ''-G.json'', File (json_file example_G_doc example_G_text)),
      (''d/'' @ long_prefix @ ''-id_map.json'',
         File (json_file example_id_map example_id_map_text))]"

definition fs_long_prefix :: "int list list filesystem" where
  "fs_long_prefix = posix_fs long_prefix_entries"

text \<open>The object that \<^verbatim>\<open>from_graphsage\<close> returns on the two mandatory files alone.\<close>

definition example_graph :: "(nx_graph, int list list) Graph" where
  "example_graph =
     \<lparr> data =
         \<lparr> data_class = GraphSAGE, graph = example_G, node_map = example_id_map,
           edge_map = PNone, node_classes = PNone, edge_classes = PNone,
           node_features = None, edge_features = None \<rparr>,
       format = Some ''graphsage'' \<rparr>"

text \<open>The object that \<^verbatim>\<open>from_graphsage\<close> returns when the id map sends two ids to 0.\<close>

definition colliding_graph :: "(nx_graph, int list list) Graph" where
  "colliding_graph =
     \<lparr> data =
         \<lparr> data_class = GraphSAGE, graph = example_G, node_map = colliding_id_map,
           edge_map = PNone, node_classes = PNone, edge_classes = PNone,
           node_features = None, edge_features = None \<rparr>,
       format = Some ''graphsage'' \<rparr>"

text \<open>
  A heterogeneous model held in the networkx format: two node classes. The format
  \<^verbatim>\<open>graphsage\<close> is the homogeneous-only one (the docstring of \<^verbatim>\<open>from_graphsage\<close> calls
  its feature file incompatible with heterogeneous graphs); the example adapter only
  re-tags the class of the backing data.
\<close>

definition heterogeneous_graph :: "(nx_graph, int list list) Graph" where
  "heterogeneous_graph =
     \<lparr> data =
         \<lparr> data_class = NetworkX, graph = example_G, node_map = example_id_map,
           edge_map = PNone, node_classes = PList [PStr ''Chemical'', PStr ''Gene''],
           edge_classes = PNone, node_features = None, edge_features = None \<rparr>,
       format = Some ''networkx'' \<rparr>"

definition example_homogeneous_only :: "string \<Rightarrow> bool" where
  "example_homogeneous_only to = (to = ''graphsage'')"

definition example_adapter ::
  "string \<Rightarrow> (nx_graph, int list list) graph_data \<Rightarrow> (nx_graph, int list list) graph_data" where
  "example_adapter to d =
     d\<lparr> data_class :=
          (if to = ''neo4j'' then Neo4j
           else if to = ''networkx'' then NetworkX
           else if to = ''graphsage'' then GraphSAGE
           else OtherData) \<rparr>"

section \<open>Theorems\<close>

subsection \<open>Unfolding sets, and what each load opens\<close>

lemmas example_defs = fs_mandatory_def fs_walks_def fs_full_def fs_colliding_def fs_G_only_def
  fs_garbled_id_map_def fs_empty_def fs_class_map_directory_def fs_file_as_directory_def
  posix_fs_def parent_paths_def
  is_regular_file_def json_file_def text_file_def npy_file_def
  example_G_doc_def example_G_def example_id_map_def colliding_id_map_def example_class_map_def
  example_feats_def example_walks_def example_node_link_graph_def example_graph_def
  colliding_graph_def

lemmas io_defs = returns_def raises_def of_result_def and_then_def except_FileNotFoundError_def

lemmas load_defs = load_graph_def json_load_def np_load_def read_walks_def
  load_class_map_def load_feats_map_def load_walks_def open_file_def io_defs

lemmas path_defs = nx_json_file_def id_map_file_def class_map_file_def
  feats_map_file_def walks_file_def os_path_join_def

lemma json_load_opens: "snd (json_load fs p) = [p]"
  by (simp add: load_defs split: sum.split fs_node.split)

lemma np_load_opens: "snd (np_load fs p) = [p]"
  by (simp add: load_defs split: sum.split fs_node.split)

lemma read_walks_opens: "snd (read_walks fs p) = [p]"
  by (simp add: load_defs split: sum.split fs_node.split)

lemma load_graph_opens: "snd (load_graph node_link_graph fs p) = [p]"
  by (simp add: load_defs split: sum.split fs_node.split)

lemma load_class_map_opens: "snd (load_class_map fs p) = [p]"
  by (simp add: load_defs split: sum.split fs_node.split)

lemma load_feats_map_opens: "snd (load_feats_map fs p) = [p]"
  by (simp add: load_defs split: sum.split fs_node.split)

lemma load_walks_opens: "snd (load_walks fs p) = [p]"
  by (simp add: load_defs split: sum.split fs_node.split)

lemma and_then_opened:
  "snd m = [p] \<Longrightarrow>
     and_then m k =
       (case fst m of Inl e \<Rightarrow> (Inl e, [p]) | Inr x \<Rightarrow> (fst (k x), p # snd (k x)))"
  by (cases m) (simp add: and_then_def split: sum.split prod.split)

text \<open>The call, by the outcome of its five loads.\<close>

lemma from_graphsage_Some:
  "from_graphsage node_link_graph fs prefix (Some d) =
     (case fst (load_graph node_link_graph fs (nx_json_file d prefix)) of
        Inl e \<Rightarrow> (Inl e, [nx_json_file d prefix])
      | Inr G \<Rightarrow>
     (case fst (json_load fs (id_map_file d prefix)) of
        Inl e \<Rightarrow> (Inl e, [nx_json_file d prefix, id_map_file d prefix])
      | Inr idm \<Rightarrow>
     (case fst (load_class_map fs (class_map_file d prefix)) of
        Inl e \<Rightarrow> (Inl e, [nx_json_file d prefix, id_map_file d prefix, class_map_file d prefix])
      | Inr c \<Rightarrow>
     (case fst (load_feats_map fs (feats_map_file d prefix)) of
        Inl e \<Rightarrow>
          (Inl e, [nx_json_file d prefix, id_map_file d prefix, class_map_file d prefix,
                   feats_map_file d prefix])
      | Inr f \<Rightarrow>
     (case fst (load_walks fs (walks_file d prefix)) of
        Inl e \<Rightarrow>
          (Inl e, [nx_json_file d prefix, id_map_file d prefix, class_map_file d prefix,
                   feats_map_file d prefix, walks_file d prefix])
      | Inr w \<Rightarrow>
          (Inr (Graph_init (GraphSAGE_init G idm c f)),
           [nx_json_file d prefix, id_map_file d prefix, class_map_file d prefix,
            feats_map_file d prefix, walks_file d prefix]))))))"
  by (simp add: from_graphsage_def Let_def
      and_then_opened [OF load_graph_opens] and_then_opened [OF json_load_opens]
      and_then_opened [OF load_class_map_opens] and_then_opened [OF load_feats_map_opens]
      and_then_opened [OF load_walks_opens] returns_def split: sum.split)

lemma load_class_map_absent:
  "fs p = Absent FileNotFoundError \<Longrightarrow> fst (load_class_map fs p) = Inr PNone"
  by (simp add: load_defs)

lemma load_feats_map_absent:
  "fs p = Absent FileNotFoundError \<Longrightarrow> fst (load_feats_map fs p) = Inr None"
  by (simp add: load_defs)

lemma load_walks_absent:
  "fs p = Absent FileNotFoundError \<Longrightarrow> fst (load_walks fs p) = Inr None"
  by (simp add: load_defs)

lemma load_class_map_present:
  "fst (json_load fs p) = Inr c \<Longrightarrow> fst (load_class_map fs p) = Inr c"
  by (cases "json_load fs p") (simp add: load_class_map_def except_FileNotFoundError_def)

lemma load_feats_map_present:
  "fst (np_load fs p) = Inr a \<Longrightarrow> fst (load_feats_map fs p) = Inr (Some a)"
  by (cases "np_load fs p") (simp add: load_feats_map_def io_defs)

lemma load_walks_present:
  "fst (read_walks fs p) = Inr w \<Longrightarrow> fst (load_walks fs p) = Inr (Some w)"
  by (cases "read_walks fs p") (simp add: load_walks_def io_defs)

lemma from_graphsage_success:
  assumes "fst (load_graph node_link_graph fs (nx_json_file d prefix)) = Inr G"
    and "fst (json_load fs (id_map_file d prefix)) = Inr idm"
    and "fst (load_class_map fs (class_map_file d prefix)) = Inr c"
    and "fst (load_feats_map fs (feats_map_file d prefix)) = Inr f"
    and "fst (load_walks fs (walks_file d prefix)) = Inr w"
  shows "fst (from_graphsage node_link_graph fs prefix (Some d)) =
           Inr (Graph_init (GraphSAGE_init G idm c f))"
  using assms by (simp add: from_graphsage_Some)

text \<open>The example with the long prefix: its paths, and what is found under them.\<close>

lemma long_prefix_paths:
  "nx_json_file ''d'' long_prefix = ''d/'' @ long_prefix @ ''-G.json''"
  "id_map_file ''d'' long_prefix = ''d/'' @ long_prefix @ ''-id_map.json''"
  "class_map_file ''d'' long_prefix = ''d/'' @ long_prefix @ ''-class_map.json''"
  by (simp_all add: path_defs long_prefix_def)

lemma posix_fs_lookup:
  "CHR 0x00 \<notin> set p \<Longrightarrow> \<not> list_ex (\<lambda>c. 255 < length c) (path_components p) \<Longrightarrow>
   \<not> list_ex (\<lambda>q. is_regular_file (map_of entries q)) (parent_paths p) \<Longrightarrow>
     posix_fs entries p =
       (case map_of entries p of None \<Rightarrow> Absent FileNotFoundError | Some n \<Rightarrow> n)"
  by (simp add: posix_fs_def)

lemma long_prefix_guards:
  "CHR 0x00 \<notin> set (''d/'' @ long_prefix @ ''-G.json'')"
  "\<not> list_ex (\<lambda>c. 255 < length c) (path_components (''d/'' @ long_prefix @ ''-G.json''))"
  "\<not> list_ex (\<lambda>q. is_regular_file (map_of long_prefix_entries q))
       (parent_paths (''d/'' @ long_prefix @ ''-G.json''))"
  "CHR 0x00 \<notin> set (''d/'' @ long_prefix @ ''-id_map.json'')"
  "\<not> list_ex (\<lambda>c. 255 < length c) (path_components (''d/'' @ long_prefix @ ''-id_map.json''))"
  "\<not> list_ex (\<lambda>q. is_regular_file (map_of long_prefix_entries q))
       (parent_paths (''d/'' @ long_prefix @ ''-id_map.json''))"
  by code_simp+

lemma long_prefix_class_map:
  "fs_long_prefix (''d/'' @ long_prefix @ ''-class_map.json'') = Absent OSError"
  by code_simp

subsection \<open>Loading with optional files absent\<close>

text \<open>
  C1 (amended). If the two mandatory files \<^verbatim>\<open>{prefix}-G.json\<close> and
  \<^verbatim>\<open>{prefix}-id_map.json\<close> load, and each of the three optional files either loads or
  is absent in the sense that opening it raises \<^verbatim>\<open>FileNotFoundError\<close>, then
  \<^verbatim>\<open>Graph.from_graphsage\<close> returns a graph built from the two mandatory artifacts. In
  that graph an absent class map is \<^verbatim>\<open>None\<close> (\<^verbatim>\<open>node_classes\<close>) and an absent feature
  file is \<^verbatim>\<open>None\<close> (\<^verbatim>\<open>node_features\<close>); an absent walks file does not make the load
  fail.
\<close>

theorem from_graphsage_optional_absent:
  assumes G: "fst (load_graph node_link_graph fs (nx_json_file d prefix)) = Inr G"
    and M: "fst (json_load fs (id_map_file d prefix)) = Inr idm"
    and C: "fs (class_map_file d prefix) = Absent FileNotFoundError \<or>
            (\<exists>c. fst (json_load fs (class_map_file d prefix)) = Inr c)"
    and F: "fs (feats_map_file d prefix) = Absent FileNotFoundError \<or>
            (\<exists>a. fst (np_load fs (feats_map_file d prefix)) = Inr a)"
    and W: "fs (walks_file d prefix) = Absent FileNotFoundError \<or>
            (\<exists>w. fst (read_walks fs (walks_file d prefix)) = Inr w)"
  shows "\<exists>g. fst (from_graphsage node_link_graph fs prefix (Some d)) = Inr g \<and>
             graph (data g) = G \<and> node_map (data g) = idm \<and>
             (fs (class_map_file d prefix) = Absent FileNotFoundError \<longrightarrow>
                node_classes (data g) = PNone) \<and>
             (fs (feats_map_file d prefix) = Absent FileNotFoundError \<longrightarrow>
                node_features (data g) = None)"
proof -
  from C obtain c where c: "fst (load_class_map fs (class_map_file d prefix)) = Inr c"
    and c0: "fs (class_map_file d prefix) = Absent FileNotFoundError \<longrightarrow> c = PNone"
    using load_class_map_absent load_class_map_present by (metis Inr_inject)
  from F obtain f where f: "fst (load_feats_map fs (feats_map_file d prefix)) = Inr f"
    and f0: "fs (feats_map_file d prefix) = Absent FileNotFoundError \<longrightarrow> f = None"
    using load_feats_map_absent load_feats_map_present by (metis Inr_inject)
  from W obtain w where w: "fst (load_walks fs (walks_file d prefix)) = Inr w"
    using load_walks_absent load_walks_present by metis
  have "fst (from_graphsage node_link_graph fs prefix (Some d)) =
          Inr (Graph_init (GraphSAGE_init G idm c f))"
    by (rule from_graphsage_success [OF G M c f w])
  with c0 f0 show ?thesis
    by (simp add: Graph_init_def GraphSAGE_init_def)
qed

theorem from_graphsage_optional_absent_witness:
  "fst (load_graph example_node_link_graph fs_mandatory (nx_json_file ''d'' ''p'')) =
     Inr example_G \<and>
   fst (json_load fs_mandatory (id_map_file ''d'' ''p'')) = Inr example_id_map \<and>
   fs_mandatory (class_map_file ''d'' ''p'') = Absent FileNotFoundError \<and>
   fs_mandatory (feats_map_file ''d'' ''p'') = Absent FileNotFoundError \<and>
   fs_mandatory (walks_file ''d'' ''p'') = Absent FileNotFoundError \<and>
   (\<exists>g. fst (from_graphsage example_node_link_graph fs_mandatory ''p'' (Some ''d'')) = Inr g \<and>
        graph (data g) = example_G \<and> node_map (data g) = example_id_map \<and>
        node_classes (data g) = PNone \<and> node_features (data g) = None)"
proof -
  have G: "fst (load_graph example_node_link_graph fs_mandatory (nx_json_file ''d'' ''p'')) =
      Inr example_G"
    by (simp add: load_defs path_defs example_defs)
  have M: "fst (json_load fs_mandatory (id_map_file ''d'' ''p'')) = Inr example_id_map"
    by (simp add: load_defs path_defs example_defs)
  have C: "fs_mandatory (class_map_file ''d'' ''p'') = Absent FileNotFoundError"
    by (simp add: path_defs example_defs)
  have F: "fs_mandatory (feats_map_file ''d'' ''p'') = Absent FileNotFoundError"
    by (simp add: path_defs example_defs)
  have W: "fs_mandatory (walks_file ''d'' ''p'') = Absent FileNotFoundError"
    by (simp add: path_defs example_defs)
  from from_graphsage_optional_absent [OF G M disjI1 [OF C] disjI1 [OF F] disjI1 [OF W]]
  show ?thesis using G M C F W by auto
qed

text \<open>
  The load does not succeed for every absent optional file. With a prefix of 241
  characters the two mandatory files exist and load; no class map exists, since its name
  would have 256 characters, and opening it raises \<^verbatim>\<open>OSError\<close> (file name too long),
  which \<^verbatim>\<open>except FileNotFoundError\<close> does not catch: the call fails.
\<close>

theorem from_graphsage_optional_absent_counterexample:
  "fst (load_graph example_node_link_graph fs_long_prefix (nx_json_file ''d'' long_prefix)) =
     Inr example_G \<and>
   fst (json_load fs_long_prefix (id_map_file ''d'' long_prefix)) = Inr example_id_map \<and>
   fs_long_prefix (class_map_file ''d'' long_prefix) = Absent OSError \<and>
   fst (from_graphsage example_node_link_graph fs_long_prefix long_prefix (Some ''d'')) =
     Inl OSError"
proof -
  have G: "fs_long_prefix (nx_json_file ''d'' long_prefix) =
      File (json_file example_G_doc example_G_text)"
    using long_prefix_guards
    by (simp add: fs_long_prefix_def long_prefix_paths posix_fs_lookup long_prefix_entries_def)
  have M: "fs_long_prefix (id_map_file ''d'' long_prefix) =
      File (json_file example_id_map example_id_map_text)"
    using long_prefix_guards
    by (simp add: fs_long_prefix_def long_prefix_paths posix_fs_lookup long_prefix_entries_def)
  have C: "fs_long_prefix (class_map_file ''d'' long_prefix) = Absent OSError"
    by (simp only: long_prefix_paths long_prefix_class_map)
  have g: "fst (load_graph example_node_link_graph fs_long_prefix
      (nx_json_file ''d'' long_prefix)) = Inr example_G"
    by (simp add: load_defs G json_file_def example_G_doc_def example_G_def
        example_node_link_graph_def)
  have m: "fst (json_load fs_long_prefix (id_map_file ''d'' long_prefix)) = Inr example_id_map"
    by (simp add: load_defs M json_file_def)
  have c: "fst (load_class_map fs_long_prefix (class_map_file ''d'' long_prefix)) = Inl OSError"
    by (simp add: load_defs C)
  have "fst (from_graphsage example_node_link_graph fs_long_prefix long_prefix (Some ''d'')) =
      Inl OSError"
    by (simp add: from_graphsage_Some g m c)
  with g m C show ?thesis by simp
qed

subsection \<open>Errors of the mandatory files\<close>

text \<open>
  C2 (amended). If loading \<^verbatim>\<open>{prefix}-G.json\<close> or \<^verbatim>\<open>{prefix}-id_map.json\<close> raises,
  \<^verbatim>\<open>Graph.from_graphsage\<close> fails with that very exception: the exception that
  \<^verbatim>\<open>open\<close> raises for a missing file (\<^verbatim>\<open>FileNotFoundError\<close> in the ordinary case), the
  exception of the parser for an unparsable one. The exception propagates at once, so
  that no later file has been opened, and no graph is returned.
\<close>

theorem from_graphsage_mandatory_error:
  "(fst (load_graph node_link_graph fs (nx_json_file d prefix)) = Inl e \<longrightarrow>
      from_graphsage node_link_graph fs prefix (Some d) = (Inl e, [nx_json_file d prefix])) \<and>
   (fst (load_graph node_link_graph fs (nx_json_file d prefix)) = Inr G \<and>
    fst (json_load fs (id_map_file d prefix)) = Inl e \<longrightarrow>
      from_graphsage node_link_graph fs prefix (Some d) =
        (Inl e, [nx_json_file d prefix, id_map_file d prefix])) \<and>
   (fs (nx_json_file d prefix) = Absent e \<longrightarrow>
      from_graphsage node_link_graph fs prefix (Some d) = (Inl e, [nx_json_file d prefix])) \<and>
   (fst (load_graph node_link_graph fs (nx_json_file d prefix)) = Inr G \<and>
    fs (id_map_file d prefix) = Absent e \<longrightarrow>
      from_graphsage node_link_graph fs prefix (Some d) =
        (Inl e, [nx_json_file d prefix, id_map_file d prefix]))"
proof -
  have a: "fs p = Absent e \<Longrightarrow> fst (json_load fs p) = Inl e" for p
    by (simp add: load_defs)
  have b: "fs p = Absent e \<Longrightarrow> fst (load_graph node_link_graph fs p) = Inl e" for p
    by (simp add: load_defs)
  show ?thesis
    by (simp add: from_graphsage_Some a b)
qed

theorem from_graphsage_mandatory_error_witness:
  "fs_empty (nx_json_file ''d'' ''p'') = Absent FileNotFoundError \<and>
   from_graphsage example_node_link_graph fs_empty ''p'' (Some ''d'') =
     (Inl FileNotFoundError, [''d/p-G.json'']) \<and>
   fst (load_graph example_node_link_graph fs_G_only (nx_json_file ''d'' ''p'')) =
     Inr example_G \<and>
   fs_G_only (id_map_file ''d'' ''p'') = Absent FileNotFoundError \<and>
   from_graphsage example_node_link_graph fs_G_only ''p'' (Some ''d'') =
     (Inl FileNotFoundError, [''d/p-G.json'', ''d/p-id_map.json'']) \<and>
   fst (load_graph example_node_link_graph fs_garbled_id_map (nx_json_file ''d'' ''p'')) =
     Inr example_G \<and>
   fst (json_load fs_garbled_id_map (id_map_file ''d'' ''p'')) = Inl JSONDecodeError \<and>
   from_graphsage example_node_link_graph fs_garbled_id_map ''p'' (Some ''d'') =
     (Inl JSONDecodeError, [''d/p-G.json'', ''d/p-id_map.json'']) \<and>
   fs_file_as_directory (nx_json_file ''d'' ''p'') = Absent NotADirectoryError \<and>
   from_graphsage example_node_link_graph fs_file_as_directory ''p'' (Some ''d'') =
     (Inl NotADirectoryError, [''d/p-G.json''])"
proof -
  have p1: "nx_json_file ''d'' ''p'' = ''d/p-G.json''"
    and p2: "id_map_file ''d'' ''p'' = ''d/p-id_map.json''"
    by (simp_all add: path_defs)
  have e: "fs_empty (nx_json_file ''d'' ''p'') = Absent FileNotFoundError"
    by (simp add: p1 example_defs)
  have g1: "fst (load_graph example_node_link_graph fs_G_only (nx_json_file ''d'' ''p'')) =
      Inr example_G"
    by (simp add: load_defs p1 example_defs)
  have g2: "fs_G_only (id_map_file ''d'' ''p'') = Absent FileNotFoundError"
    by (simp add: p2 example_defs)
  have h1: "fst (load_graph example_node_link_graph fs_garbled_id_map (nx_json_file ''d'' ''p'')) =
      Inr example_G"
    by (simp add: load_defs p1 example_defs)
  have h2: "fst (json_load fs_garbled_id_map (id_map_file ''d'' ''p'')) = Inl JSONDecodeError"
    by (simp add: load_defs p2 example_defs)
  have l: "fs_file_as_directory (nx_json_file ''d'' ''p'') = Absent NotADirectoryError"
    by (simp add: p1 example_defs)
  note T = from_graphsage_mandatory_error
  from T [of example_node_link_graph fs_empty "''d''" "''p''"] e
  have r1: "from_graphsage example_node_link_graph fs_empty ''p'' (Some ''d'') =
      (Inl FileNotFoundError, [''d/p-G.json''])"
    by (simp add: p1)
  from T [of example_node_link_graph fs_G_only "''d''" "''p''" _ example_G] g1 g2
  have r2: "from_graphsage example_node_link_graph fs_G_only ''p'' (Some ''d'') =
      (Inl FileNotFoundError, [''d/p-G.json'', ''d/p-id_map.json''])"
    by (simp add: p1 p2)
  from T [of example_node_link_graph fs_garbled_id_map "''d''" "''p''" JSONDecodeError example_G]
    h1 h2
  have r3: "from_graphsage example_node_link_graph fs_garbled_id_map ''p'' (Some ''d'') =
      (Inl JSONDecodeError, [''d/p-G.json'', ''d/p-id_map.json''])"
    by (simp add: p1 p2)
  from T [of example_node_link_graph fs_file_as_directory "''d''" "''p''" NotADirectoryError] l
  have r4: "from_graphsage example_node_link_graph fs_file_as_directory ''p'' (Some ''d'') =
      (Inl NotADirectoryError, [''d/p-G.json''])"
    by (simp add: p1)
  from e g1 g2 h1 h2 l r1 r2 r3 r4 show ?thesis by simp
qed

text \<open>
  The exception is not \<^verbatim>\<open>MalformedSourceError\<close>: with the graph file missing the call
  raises \<^verbatim>\<open>FileNotFoundError\<close>, with an unparsable id map \<^verbatim>\<open>JSONDecodeError\<close>.
\<close>

theorem from_graphsage_mandatory_error_counterexample:
  "fst (from_graphsage example_node_link_graph fs_empty ''p'' (Some ''d'')) =
     Inl FileNotFoundError \<and>
   fst (from_graphsage example_node_link_graph fs_empty ''p'' (Some ''d'')) \<noteq>
     Inl MalformedSourceError \<and>
   fst (from_graphsage example_node_link_graph fs_garbled_id_map ''p'' (Some ''d'')) =
     Inl JSONDecodeError \<and>
   fst (from_graphsage example_node_link_graph fs_garbled_id_map ''p'' (Some ''d'')) \<noteq>
     Inl MalformedSourceError"
  by (simp add: from_graphsage_def load_defs path_defs example_defs)

subsection \<open>The files opened\<close>




subsection \<open>The walks file\<close>

text \<open>
  The lines of a readable walks file have no influence on the object returned: the list
  \<^verbatim>\<open>walks\<close> is built and then dropped.
\<close>

lemma from_graphsage_ignores_walk_lines:
  assumes f: "fs (walks_file d prefix) = File f"
    and ls: "text_lines f = Inr ls"
  shows "fst (from_graphsage node_link_graph
                (fs(walks_file d prefix := File (f\<lparr>text_lines := Inr ls'\<rparr>))) prefix (Some d)) =
         fst (from_graphsage node_link_graph fs prefix (Some d))"
proof -
  let ?fs' = "fs(walks_file d prefix := File (f\<lparr>text_lines := Inr ls'\<rparr>))"
  have j: "json_load ?fs' p = json_load fs p" for p
    using f by (simp add: json_load_def open_file_def io_defs)
  have n: "np_load ?fs' p = np_load fs p" for p
    using f by (simp add: np_load_def open_file_def io_defs)
  have w: "fst (load_walks fs (walks_file d prefix)) = Inr (Some (append_lines [] ls))"
    using f ls by (simp add: load_defs)
  have w': "fst (load_walks ?fs' (walks_file d prefix)) = Inr (Some (append_lines [] ls'))"
    by (simp add: load_defs)
  show ?thesis
    by (simp add: from_graphsage_Some load_graph_def load_class_map_def
        load_feats_map_def j n w w' split: sum.split)
qed

text \<open>
  C3. The claim is that the walk list of a present \<^verbatim>\<open>{prefix}-walks.txt\<close> is read and
  stored in the resulting graph object, unvalidated. On the directory with the two
  mandatory files and a walks file of two lines (in descending order of their first
  item), the lines are read into \<^verbatim>\<open>walks\<close> without any check of their order, but the
  object returned is the same as without the walks file: it holds no walk.
\<close>

theorem from_graphsage_drops_walks:
  "fst (load_walks fs_walks (walks_file ''d'' ''p'')) = Inr (Some example_walks) \<and>
   fst (from_graphsage example_node_link_graph fs_walks ''p'' (Some ''d'')) = Inr example_graph \<and>
   fst (from_graphsage example_node_link_graph fs_mandatory ''p'' (Some ''d'')) =
     Inr example_graph"
  by (simp add: from_graphsage_def load_defs path_defs example_defs Graph_init_def
      GraphSAGE_init_def)

subsection \<open>The identity map\<close>

text \<open>
  C7 (amended). \<^verbatim>\<open>Graph.from_graphsage\<close> stores the parsed content of
  \<^verbatim>\<open>{prefix}-id_map.json\<close> unchanged, and unchecked, as the node map of the backing
  data. So for every graph it returns from an id map file whose content is a bijection
  between the external ids and the dense range from 0, the stored node map is that
  bijection. The property \<^verbatim>\<open>id_map\<close> of \<^verbatim>\<open>Graph\<close> itself has the body \<^verbatim>\<open>pass\<close> and
  yields \<^verbatim>\<open>None\<close>.
\<close>

theorem from_graphsage_stores_id_map:
  assumes "fst (from_graphsage node_link_graph fs prefix (Some d)) = Inr g"
    and "fst (json_load fs (id_map_file d prefix)) = Inr m"
    and "is_dense_bijection m"
  shows "node_map (data g) = m \<and> is_dense_bijection (node_map (data g)) \<and> id_map g = PNone"
proof -
  from assms(1,2) have "node_map (data g) = m"
    by (auto simp: from_graphsage_Some Graph_init_def GraphSAGE_init_def
        split: sum.splits)
  with assms(3) show ?thesis
    by (simp add: id_map_def)
qed

theorem from_graphsage_stores_id_map_witness:
  "fst (from_graphsage example_node_link_graph fs_mandatory ''p'' (Some ''d'')) =
     Inr example_graph \<and>
   fst (json_load fs_mandatory (id_map_file ''d'' ''p'')) = Inr example_id_map \<and>
   is_dense_bijection example_id_map \<and>
   node_map (data example_graph) = example_id_map \<and>
   is_dense_bijection (node_map (data example_graph)) \<and>
   id_map example_graph = PNone"
proof -
  have a: "fst (from_graphsage example_node_link_graph fs_mandatory ''p'' (Some ''d'')) =
      Inr example_graph"
    by (simp add: from_graphsage_def load_defs path_defs example_defs Graph_init_def
        GraphSAGE_init_def)
  have b: "fst (json_load fs_mandatory (id_map_file ''d'' ''p'')) = Inr example_id_map"
    by (simp add: load_defs path_defs example_defs)
  have c: "is_dense_bijection example_id_map"
    by (simp add: is_dense_bijection_def example_id_map_def upt_rec)
  from from_graphsage_stores_id_map [OF a b c] a b c show ?thesis
    by simp
qed

text \<open>
  A load is not refused when the id map is no bijection: with \<^verbatim>\<open>a\<close> and \<^verbatim>\<open>b\<close> both sent
  to 0 the call returns a graph whose node map has the two entries.
\<close>

theorem from_graphsage_stores_id_map_counterexample:
  "fst (from_graphsage example_node_link_graph fs_colliding ''p'' (Some ''d'')) =
     Inr colliding_graph \<and>
   node_map (data colliding_graph) = PDict [(''a'', PInt 0), (''b'', PInt 0)] \<and>
   \<not> is_dense_bijection (node_map (data colliding_graph)) \<and>
   id_map colliding_graph = PNone"
  by (simp add: from_graphsage_def load_defs path_defs example_defs Graph_init_def
      GraphSAGE_init_def is_dense_bijection_def id_map_def)

subsection \<open>Adding nodes\<close>

text \<open>
  C8 (amended). \<^verbatim>\<open>Graph.add_node\<close> is an abstract placeholder: for every graph and
  every argument it returns \<^verbatim>\<open>None\<close>, raises nothing, and leaves the graph (nodes,
  edges, identity map, heterogeneity descriptor) as it was. It assigns no index and
  registers no external id.
\<close>

theorem add_node_is_placeholder:
  "add_node self nodes = (Inr PNone, self)"
  by (simp add: add_node_def)

text \<open>
  On the loaded example graph, whose node map has the external id \<^verbatim>\<open>a\<close>, adding
  \<^verbatim>\<open>a\<close> again raises no \<^verbatim>\<open>DuplicateIdentifierError\<close>, and adding the new id \<^verbatim>\<open>c\<close>
  registers nothing.
\<close>

theorem add_node_counterexample:
  "node_map (data example_graph) = PDict [(''a'', PInt 0), (''b'', PInt 1)] \<and>
   fst (add_node example_graph (PStr ''a'')) = Inr PNone \<and>
   fst (add_node example_graph (PStr ''a'')) \<noteq> Inl DuplicateIdentifierError \<and>
   snd (add_node example_graph (PStr ''c'')) = example_graph"
  by (simp add: add_node_def example_graph_def example_id_map_def)

subsection \<open>The constructors that are not available\<close>

text \<open>
  C9 (amended). \<^verbatim>\<open>Graph.from_neo4j\<close>, \<^verbatim>\<open>Graph.from_networkx\<close> and \<^verbatim>\<open>Graph.from_dgl\<close>
  raise an exception on every call and never return a graph: \<^verbatim>\<open>NotImplementedError\<close>
  when called without arguments, \<^verbatim>\<open>TypeError\<close> when called with any argument, since
  they declare no parameter.
\<close>

theorem unavailable_constructors:
  "(from_neo4j args kwargs :: py_error + ('g, 'a) Graph) =
     Inl (if args = [] \<and> kwargs = [] then NotImplementedError else TypeError) \<and>
   (from_networkx args kwargs :: py_error + ('g, 'a) Graph) =
     Inl (if args = [] \<and> kwargs = [] then NotImplementedError else TypeError) \<and>
   (from_dgl args kwargs :: py_error + ('g, 'a) Graph) =
     Inl (if args = [] \<and> kwargs = [] then NotImplementedError else TypeError)"
  by (simp add: from_neo4j_def from_networkx_def from_dgl_def)

text \<open>
  The call of the module docstring, \<^verbatim>\<open>Graph.from_neo4j(config_file = "./CONFIG.cfg")\<close>,
  raises \<^verbatim>\<open>TypeError\<close>, not \<^verbatim>\<open>NotImplementedError\<close>.
\<close>

theorem unavailable_constructors_counterexample:
  "(from_neo4j [] [(''config_file'', PStr ''./CONFIG.cfg'')]
      :: py_error + (nx_graph, int list list) Graph) = Inl TypeError \<and>
   (from_neo4j [] [(''config_file'', PStr ''./CONFIG.cfg'')]
      :: py_error + (nx_graph, int list list) Graph) \<noteq> Inl NotImplementedError"
  by (simp add: from_neo4j_def)

subsection \<open>Conversion in place\<close>

text \<open>
  C5. For a graph object whose format tag is \<open>F\<close>: if \<^verbatim>\<open>convert_inplace\<close> to a target
  format fails with \<^verbatim>\<open>IncompatibleFeatureLayoutError\<close>, the object after the call is the
  object before it, field by field, and its format tag is still \<open>F\<close>.
\<close>

theorem convert_inplace_failure_keeps_state:
  assumes "format self = Some F"
    and "fst (convert_inplace homogeneous_only adapter self to) =
           Inl IncompatibleFeatureLayoutError"
  shows "snd (convert_inplace homogeneous_only adapter self to) = self \<and>
         format (snd (convert_inplace homogeneous_only adapter self to)) = Some F"
  using assms by (simp add: convert_inplace_def split: if_splits)

theorem convert_inplace_failure_keeps_state_witness:
  "format heterogeneous_graph = Some ''networkx'' \<and>
   fst (convert_inplace example_homogeneous_only example_adapter heterogeneous_graph
          ''graphsage'') = Inl IncompatibleFeatureLayoutError \<and>
   snd (convert_inplace example_homogeneous_only example_adapter heterogeneous_graph
          ''graphsage'') = heterogeneous_graph \<and>
   format (snd (convert_inplace example_homogeneous_only example_adapter heterogeneous_graph
          ''graphsage'')) = Some ''networkx''"
proof -
  have a: "format heterogeneous_graph = Some ''networkx''"
    by (simp add: heterogeneous_graph_def)
  have b: "fst (convert_inplace example_homogeneous_only example_adapter heterogeneous_graph
          ''graphsage'') = Inl IncompatibleFeatureLayoutError"
    by (simp add: convert_inplace_def is_heterogeneous_def is_heterogeneous_attr_def
        heterogeneous_graph_def example_homogeneous_only_def)
  from convert_inplace_failure_keeps_state [OF a b] a b show ?thesis
    by simp
qed

text \<open>
  The failure occurs exactly for a heterogeneous model and a homogeneous-only target; a
  conversion that does not fail sets the format tag to the target.
\<close>

lemma convert_inplace_fails_iff:
  "fst (convert_inplace homogeneous_only adapter self to) = Inl IncompatibleFeatureLayoutError
     \<longleftrightarrow> is_heterogeneous self \<and> homogeneous_only to"
  by (simp add: convert_inplace_def)

lemma convert_inplace_success_retags:
  "\<not> (is_heterogeneous self \<and> homogeneous_only to) \<Longrightarrow>
     format (snd (convert_inplace homogeneous_only adapter self to)) = Some to"
  by (auto simp: convert_inplace_def)

subsection \<open>Heterogeneity\<close>

text \<open>
  C6. For every graph object, \<^verbatim>\<open>is_heterogeneous\<close> is true if and only if the
  Heterogeneity Descriptor of its backing data lists more than one node class or more
  than one edge class.
\<close>

theorem is_heterogeneous_iff:
  "is_heterogeneous self \<longleftrightarrow>
     1 < card (set (listed_classes (node_classes (data self)))) \<or>
     1 < card (set (listed_classes (edge_classes (data self))))"
  by (simp add: is_heterogeneous_def is_heterogeneous_attr_def length_remdups_card_conv)

text \<open>Two node classes make a graph heterogeneous; the loaded example graph is not.\<close>

lemma is_heterogeneous_examples:
  "is_heterogeneous heterogeneous_graph \<and> \<not> is_heterogeneous example_graph"
  by (simp add: is_heterogeneous_def is_heterogeneous_attr_def heterogeneous_graph_def
      example_graph_def)

subsection \<open>The directory argument\<close>

text \<open>
  C10. Calling \<^verbatim>\<open>Graph.from_graphsage\<close> without the directory argument, so that it keeps
  its default \<^verbatim>\<open>None\<close>, raises an exception for every prefix, and no file has been
  opened before it does.
\<close>

theorem from_graphsage_without_directory:
  "from_graphsage node_link_graph fs prefix None = (Inl TypeError, [])"
  by (simp add: from_graphsage_def raises_def)

end
